theory Spec2Isabelle
  imports Complex_Main
begin

section \<open>Values exchanged with the widget and the caller\<close>

text \<open>
  A JavaScript number. Finite values are idealised as reals; \<open>NaN\<close> is kept apart because
  \<open>NaN ?? 0\<close> is \<open>NaN\<close>: the nullish operator only replaces \<open>null\<close> and \<open>undefined\<close>.
  A value that may be \<open>undefined\<close> (or \<open>null\<close>) is an \<open>option\<close>, \<open>None\<close> being the nullish case.
\<close>

datatype number = Num real | NaN

text \<open>The operator \<open>a ?? b\<close>.\<close>

fun nullish :: "'a option \<Rightarrow> 'a \<Rightarrow> 'a" where
  "nullish None d = d"
| "nullish (Some x) d = x"

text \<open>\<open>LatLng\<close> and \<open>Region\<close> of react-native-maps; \<open>LatLngLiteral\<close> of the widget.\<close>

record LatLng =
  latitude :: number
  longitude :: number

record Region = LatLng +
  latitudeDelta :: number
  longitudeDelta :: number

record LatLngLiteral =
  lat :: number
  lng :: number

text \<open>
  A camera descriptor. The source splits it as \<open>{ center, ...others }\<close>; the record is
  generic in the representation of the centre, so that the fields of \<open>others\<close> are the same
  fields before and after the translation. A field the caller left out is \<open>None\<close>.
\<close>

record 'c CameraFields =
  cam_center :: 'c
  pitch :: "number option"
  altitude :: "number option"
  heading :: "number option"
  cam_zoom :: "number option"

type_synonym Camera = "LatLng CameraFields"
type_synonym CameraOptions = "LatLngLiteral CameraFields"

text \<open>The second argument of the region callbacks, \<open>{ isGesture: true }\<close>.\<close>

record Details =
  isGesture :: bool

text \<open>
  What the adapter reads from the widget (\<open>google.maps.Map\<close>): each getter may answer
  \<open>undefined\<close>.
\<close>

record Map =
  getCenter :: "LatLngLiteral option"
  getZoom :: "number option"
  getTilt :: "number option"
  getHeading :: "number option"

text \<open>Values of the option objects handed to the widget.\<close>

datatype val = Undefined | Bool bool | Str string | Number number | Opaque nat

type_synonym object = "string \<rightharpoonup> val"

text \<open>What the result of \<open>zoomReverseDelta\<close> carries, over the numbers \<open>'n\<close>.\<close>

record 'n Delta =
  delta_latitudeDelta :: 'n
  delta_longitudeDelta :: 'n

text \<open>
  Everything a handler does to the outside: a call of one of the caller's callbacks, a call
  of a method of the widget, the creation of the locate-me control. A handler returns the
  calls it made, in the order it made them.
\<close>

datatype effect =
    MapReady
  | RegionChange Region Details
  | RegionChangeComplete Region Details
  | MoveCamera CameraOptions
  | PanTo LatLngLiteral
  | SetOptionsStyles val
  | PushControl

datatype error = TypeError

section \<open>Props, imports and component state\<close>

text \<open>
  The props after destructuring, defaults applied. A callback prop is \<open>True\<close> when the caller
  passed one: \<open>cb?.(args)\<close> calls it then and does nothing otherwise.
\<close>

record Props =
  region :: "Region option"
  initialRegion :: "Region option"
  zoomEnabled :: bool
  zoomControlEnabled :: bool
  zoomTapEnabled :: bool
  minZoomLevel :: val
  maxZoomLevel :: val
  mapType :: string
  customMapStyle :: val
  showsMyLocationButton :: bool
  showsUserLocation :: bool
  provideOptions :: "object option"
  onMapReady :: bool
  onRegionChange :: bool
  onRegionChangeComplete :: bool

text \<open>
  What the component takes from outside. The imports of \<open>./utils\<close> and \<open>./config\<close> are not
  among the source files; the component is modelled over any value of them.
  \<open>zoomReverseDelta\<close> takes an optional zoom because the second variant can pass \<open>undefined\<close>
  at run time. \<open>divide_number\<close> is the division of JavaScript numbers, and \<open>geolocation\<close> is
  whether \<open>navigator.geolocation\<close> exists.
\<close>

record Env =
  calcZoom :: "number \<Rightarrow> number"
  zoomReverseDelta :: "number option \<Rightarrow> number \<Rightarrow> number Delta"
  divide_number :: "number \<Rightarrow> number \<Rightarrow> number"
  DEFAULT_REGION :: Region
  MAP_TYPE_MAPS :: "string \<Rightarrow> val"
  geolocation :: bool

text \<open>The file holds two variants of the component.\<close>

datatype variant = First | Second

text \<open>A marker object: its position, and whether it is attached to the widget.\<close>

record Marker =
  position :: LatLngLiteral
  onMap :: bool

text \<open>
  The refs and state hooks of the component, the memoised delta ratio, and the part of the
  browser the location effect works on: the marker objects created so far (a marker is
  named by its index), the active geolocation watches, the one-shot position requests still
  in flight, and the cleanup the location effect returned last (the watch it will clear).
\<close>

record State =
  "instance" :: "Map option"
  hasIdleTriggerd :: bool
  userLocationMarker :: "nat option"
  locationButtonRef :: bool
  mapLoaded :: bool
  center :: LatLngLiteral
  zoom :: number
  deltaRatio :: number
  markers :: "Marker list"
  watches :: "nat list"
  nextWatchId :: nat
  pending :: nat
  cleanup :: "nat option"

section \<open>Construction\<close>

text \<open>\<open>cb?.(args)\<close> for a callback prop.\<close>

definition invoke :: "bool \<Rightarrow> effect \<Rightarrow> effect list" where
  "invoke given c = (if given then [c] else [])"

definition zero :: number where
  "zero = Num 0"

text \<open>
  \<open>(region?.latitudeDelta ?? initialRegion?.latitudeDelta ?? DEFAULT_REGION.latitudeDelta) /
  (region?.longitudeDelta ?? initialRegion?.longitudeDelta ?? DEFAULT_REGION.longitudeDelta)\<close>
\<close>

definition computeDeltaRatio :: "Env \<Rightarrow> Props \<Rightarrow> number" where
  "computeDeltaRatio env p =
     divide_number env
       (nullish (map_option latitudeDelta (region p))
          (nullish (map_option latitudeDelta (initialRegion p)) (latitudeDelta (DEFAULT_REGION env))))
       (nullish (map_option longitudeDelta (region p))
          (nullish (map_option longitudeDelta (initialRegion p)) (longitudeDelta (DEFAULT_REGION env))))"

text \<open>The state after the first render: the initialisers of the hooks.\<close>

definition mount :: "Env \<Rightarrow> Props \<Rightarrow> State" where
  "mount env p =
     \<lparr> instance = None,
       hasIdleTriggerd = False,
       userLocationMarker = None,
       locationButtonRef = False,
       mapLoaded = False,
       center =
         \<lparr> lat = nullish (map_option latitude (region p))
                   (nullish (map_option latitude (initialRegion p)) (latitude (DEFAULT_REGION env))),
           lng = nullish (map_option longitude (region p))
                   (nullish (map_option longitude (initialRegion p)) (longitude (DEFAULT_REGION env))) \<rparr>,
       zoom =
         calcZoom env
           (nullish (map_option longitudeDelta (region p))
              (nullish (map_option longitudeDelta (initialRegion p)) (longitudeDelta (DEFAULT_REGION env)))),
       deltaRatio = computeDeltaRatio env p,
       markers = [],
       watches = [],
       nextWatchId = 0,
       pending = 0,
       cleanup = None \<rparr>"

section \<open>The options memo\<close>

text \<open>The object literal both variants build from the props.\<close>

definition computedOptions :: "Env \<Rightarrow> Props \<Rightarrow> object" where
  "computedOptions env p =
     [ ''gestureHandling'' \<mapsto> Str (if zoomEnabled p then ''auto'' else ''none''),
       ''zoomControl'' \<mapsto> Bool (zoomControlEnabled p),
       ''disableDoubleClickZoom'' \<mapsto> Bool (\<not> zoomTapEnabled p),
       ''mapTypeId'' \<mapsto> MAP_TYPE_MAPS env (mapType p),
       ''styles'' \<mapsto> customMapStyle p,
       ''minZoom'' \<mapsto> minZoomLevel p,
       ''maxZoom'' \<mapsto> maxZoomLevel p ]"

text \<open>Spreading (or assigning from) a source that may be \<open>undefined\<close> copies nothing then.\<close>

definition spread :: "object option \<Rightarrow> object" where
  "spread src = (case src of None \<Rightarrow> Map.empty | Some ob \<Rightarrow> ob)"

text \<open>\<open>Object.assign(target, s1, s2)\<close>: the target after the call, which is also the result.\<close>

definition Object_assign :: "object \<Rightarrow> object \<Rightarrow> object option \<Rightarrow> object" where
  "Object_assign target s1 s2 = target ++ s1 ++ spread s2"

text \<open>
  The memo takes the content of the module-level constant \<open>DEFAULT_OPTIONS\<close> and returns
  its content afterwards together with the options object. The first variant spreads the
  constant into a fresh literal; the second passes the constant itself as the target of
  \<open>Object.assign\<close> and returns it.
\<close>

fun options :: "variant \<Rightarrow> Env \<Rightarrow> Props \<Rightarrow> object \<Rightarrow> object \<times> object" where
  "options First env p DEFAULT_OPTIONS =
     (DEFAULT_OPTIONS, DEFAULT_OPTIONS ++ computedOptions env p ++ spread (provideOptions p))"
| "options Second env p DEFAULT_OPTIONS =
     (let target = Object_assign DEFAULT_OPTIONS (computedOptions env p) (provideOptions p)
      in (target, target))"

section \<open>The imperative handle\<close>

definition getCamera :: "State \<Rightarrow> Camera" where
  "getCamera st =
     (let c = Option.bind (instance st) getCenter in
      \<lparr> cam_center =
          \<lparr> latitude = nullish (map_option lat c) zero,
            longitude = nullish (map_option lng c) zero \<rparr>,
        pitch = Some (nullish (Option.bind (instance st) getTilt) zero),
        altitude = Some zero,
        heading = Some (nullish (Option.bind (instance st) getHeading) zero),
        cam_zoom = Some (nullish (Option.bind (instance st) getZoom) zero) \<rparr>)"

text \<open>
  \<open>instance.current?.moveCamera({ center: { lat: center.latitude, lng: center.longitude },
  ...others })\<close>: no call when the ref is empty.
\<close>

definition animateCamera :: "Camera \<Rightarrow> State \<Rightarrow> State \<times> effect list" where
  "animateCamera cam st =
     (case instance st of
        None \<Rightarrow> (st, [])
      | Some m \<Rightarrow>
          (st, [MoveCamera
                 \<lparr> cam_center =
                     \<lparr> lat = latitude (cam_center cam), lng = longitude (cam_center cam) \<rparr>,
                   pitch = pitch cam,
                   altitude = altitude cam,
                   heading = heading cam,
                   cam_zoom = cam_zoom cam \<rparr>]))"

definition setCamera :: "Camera \<Rightarrow> State \<Rightarrow> State \<times> effect list" where
  "setCamera cam st =
     (case instance st of
        None \<Rightarrow> (st, [])
      | Some m \<Rightarrow>
          (st, [MoveCamera
                 \<lparr> cam_center =
                     \<lparr> lat = latitude (cam_center cam), lng = longitude (cam_center cam) \<rparr>,
                   pitch = pitch cam,
                   altitude = altitude cam,
                   heading = heading cam,
                   cam_zoom = cam_zoom cam \<rparr>]))"

definition animateToRegion :: "Region \<Rightarrow> State \<Rightarrow> State \<times> effect list" where
  "animateToRegion r st =
     (case instance st of
        None \<Rightarrow> (st, [])
      | Some m \<Rightarrow> (st, [PanTo \<lparr> lat = latitude r, lng = longitude r \<rparr>]))"

section \<open>The effect on a change of the region prop\<close>

text \<open>
  The body of \<open>useUpdateEffect(..., [region])\<close>, run with the new value of the prop. The
  first variant returns early on a missing region; the second dereferences \<open>region!\<close>, which
  throws on \<open>undefined\<close>, and passes \<open>region!.longitude\<close> to \<open>calcZoom\<close>.
\<close>

fun useUpdateEffect :: "variant \<Rightarrow> Env \<Rightarrow> Region option \<Rightarrow> State \<Rightarrow> error + State" where
  "useUpdateEffect First env None st = Inr st"
| "useUpdateEffect First env (Some r) st =
     Inr (st\<lparr> center := \<lparr> lat = latitude r, lng = longitude r \<rparr>,
              zoom := calcZoom env (longitudeDelta r) \<rparr>)"
| "useUpdateEffect Second env None st = Inl TypeError"
| "useUpdateEffect Second env (Some r) st =
     Inr (st\<lparr> center := \<lparr> lat = latitude r, lng = longitude r \<rparr>,
              zoom := calcZoom env (longitude r) \<rparr>)"

section \<open>Widget events\<close>

text \<open>Truthiness of a style descriptor, for \<open>if (customMapStyle)\<close>.\<close>

fun truthy :: "val \<Rightarrow> bool" where
  "truthy Undefined = False"
| "truthy (Bool b) = b"
| "truthy (Str s) = (s \<noteq> [])"
| "truthy (Number (Num x)) = (x \<noteq> 0)"
| "truthy (Number NaN) = False"
| "truthy (Opaque a) = True"

text \<open>
  The load handler. In the second variant it also builds the locate-me control when
  \<open>showsMyLocationButton\<close> is set and pushes it onto the widget's controls; the listeners of
  that control (hover styling, and a click that pans the widget) touch neither the
  component's state nor the marker and are left out.
\<close>

fun onLoad :: "variant \<Rightarrow> Props \<Rightarrow> Map \<Rightarrow> State \<Rightarrow> State \<times> effect list" where
  "onLoad First p m st =
     (st\<lparr> instance := Some m \<rparr>,
      (if truthy (customMapStyle p) then [SetOptionsStyles (customMapStyle p)] else [])
        @ invoke (onMapReady p) MapReady)"
| "onLoad Second p m st =
     (if showsMyLocationButton p
      then (st\<lparr> instance := Some m, mapLoaded := True, locationButtonRef := True \<rparr>,
            PushControl # invoke (onMapReady p) MapReady)
      else (st\<lparr> instance := Some m, mapLoaded := True \<rparr>, invoke (onMapReady p) MapReady))"

text \<open>
  The two tests on \<open>zoom\<close>, a value read through \<open>instance.current?.getZoom()\<close>: it is a
  number or \<open>undefined\<close>, never \<open>null\<close>. The loose test \<open>zoom == null\<close> of the first variant
  holds for \<open>undefined\<close>; the strict test \<open>zoom === null\<close> of the second never holds.
\<close>

definition loosely_null :: "'a option \<Rightarrow> bool" where
  "loosely_null x = (x = None)"

definition strictly_null :: "'a option \<Rightarrow> bool" where
  "strictly_null x = False"

fun getCurrentRegion :: "variant \<Rightarrow> Env \<Rightarrow> State \<Rightarrow> Region" where
  "getCurrentRegion First env st =
     (let zoom = Option.bind (instance st) getZoom;
          center = Option.bind (instance st) getCenter;
          delta = (if loosely_null zoom then None
                   else Some (zoomReverseDelta env zoom (deltaRatio st)))
      in \<lparr> latitude = nullish (map_option lat center) zero,
           longitude = nullish (map_option lng center) zero,
           latitudeDelta = nullish (map_option delta_latitudeDelta delta) zero,
           longitudeDelta = nullish (map_option delta_longitudeDelta delta) zero \<rparr>)"
| "getCurrentRegion Second env st =
     (let zoom = Option.bind (instance st) getZoom;
          center = Option.bind (instance st) getCenter;
          delta = (if strictly_null zoom then None
                   else Some (zoomReverseDelta env zoom (deltaRatio st)))
      in \<lparr> latitude = nullish (map_option lat center) zero,
           longitude = nullish (map_option lng center) zero,
           latitudeDelta = nullish (map_option delta_latitudeDelta delta) zero,
           longitudeDelta = nullish (map_option delta_longitudeDelta delta) zero \<rparr>)"

definition onChangeComplete :: "variant \<Rightarrow> Env \<Rightarrow> Props \<Rightarrow> State \<Rightarrow> State \<times> effect list" where
  "onChangeComplete v env p st =
     (let r = getCurrentRegion v env st in
      (st, invoke (onRegionChange p) (RegionChange r \<lparr> isGesture = True \<rparr>)
           @ invoke (onRegionChangeComplete p) (RegionChangeComplete r \<lparr> isGesture = True \<rparr>)))"

definition onZoomChanged :: "variant \<Rightarrow> Env \<Rightarrow> Props \<Rightarrow> State \<Rightarrow> State \<times> effect list" where
  "onZoomChanged v env p st =
     (if instance st = None then (st, []) else onChangeComplete v env p st)"

definition onIdle :: "variant \<Rightarrow> Env \<Rightarrow> Props \<Rightarrow> State \<Rightarrow> State \<times> effect list" where
  "onIdle v env p st =
     (if \<not> hasIdleTriggerd st then (st\<lparr> hasIdleTriggerd := True \<rparr>, [])
      else onChangeComplete v env p st)"

definition onDrag :: "variant \<Rightarrow> Env \<Rightarrow> Props \<Rightarrow> State \<Rightarrow> State \<times> effect list" where
  "onDrag v env p st =
     (let r = getCurrentRegion v env st in
      (st, invoke (onRegionChange p) (RegionChange r \<lparr> isGesture = True \<rparr>)))"

definition onClick :: "State \<Rightarrow> State \<times> effect list" where
  "onClick st = (st, [])"

definition onDblClick :: "State \<Rightarrow> State \<times> effect list" where
  "onDblClick st = (st, [])"

section \<open>The user-location marker (second variant)\<close>

text \<open>
  \<open>if (userLocationMarker.current) { userLocationMarker.current.setMap(null);
  userLocationMarker.current = null }\<close>
\<close>

definition removeMarker :: "State \<Rightarrow> State" where
  "removeMarker st =
     (case userLocationMarker st of
        None \<Rightarrow> st
      | Some i \<Rightarrow>
          st\<lparr> markers := (markers st)[i := (markers st ! i)\<lparr> onMap := False \<rparr>],
              userLocationMarker := None \<rparr>)"

text \<open>The success callback handed to \<open>getCurrentPosition\<close> and to \<open>watchPosition\<close>.\<close>

definition updateUserLocation :: "LatLng \<Rightarrow> State \<Rightarrow> State" where
  "updateUserLocation coords st =
     (let pos = \<lparr> lat = latitude coords, lng = longitude coords \<rparr> in
      if userLocationMarker st = None \<and> instance st \<noteq> None
      then st\<lparr> markers := markers st @ [\<lparr> position = pos, onMap = True \<rparr>],
               userLocationMarker := Some (length (markers st)) \<rparr>
      else (case userLocationMarker st of
              Some i \<Rightarrow> st\<lparr> markers := (markers st)[i := (markers st ! i)\<lparr> position := pos \<rparr>] \<rparr>
            | None \<Rightarrow> st))"

text \<open>
  The body of the effect on \<open>[showsUserLocation, mapLoaded]\<close>. It records the cleanup it
  returns: the watch to clear, or none on the two early returns.
\<close>

definition locationEffect :: "Env \<Rightarrow> Props \<Rightarrow> State \<Rightarrow> State" where
  "locationEffect env p st =
     (if \<not> showsUserLocation p \<or> \<not> geolocation env
      then (removeMarker st)\<lparr> cleanup := None \<rparr>
      else if \<not> mapLoaded st \<or> instance st = None
      then st\<lparr> cleanup := None \<rparr>
      else st\<lparr> pending := Suc (pending st),
               watches := watches st @ [nextWatchId st],
               nextWatchId := Suc (nextWatchId st),
               cleanup := Some (nextWatchId st) \<rparr>)"

text \<open>The cleanup of that effect: \<open>navigator.geolocation.clearWatch(watchId)\<close>.\<close>

definition locationCleanup :: "State \<Rightarrow> State" where
  "locationCleanup st =
     (case cleanup st of
        None \<Rightarrow> st
      | Some w \<Rightarrow> st\<lparr> watches := removeAll w (watches st), cleanup := None \<rparr>)"

text \<open>When a dependency of the effect has changed: the last cleanup, then the body.\<close>

definition rerunLocationEffect :: "Env \<Rightarrow> Props \<Rightarrow> State \<Rightarrow> State" where
  "rerunLocationEffect env p st = locationEffect env p (locationCleanup st)"

text \<open>Teardown: the cleanup of the unmount effect and the cleanup of the location effect.\<close>

fun unmount :: "variant \<Rightarrow> State \<Rightarrow> State" where
  "unmount First st = st"
| "unmount Second st = locationCleanup (removeMarker st)"

section \<open>The component as a machine over events\<close>

text \<open>
  What can happen to a mounted component: the events of the widget, a change of the widget's
  own camera (a gesture, or the widget carrying out a call), a change of a prop, a call on
  the imperative handle, a position fix delivered to a success callback (of a one-shot
  request or of a watch), and teardown.
\<close>

datatype source = OneShot | Watch nat

datatype event =
    Load Map
  | ZoomChanged
  | Idle
  | Drag
  | Click
  | DblClick
  | WidgetChanged Map
  | SetRegion "Region option"
  | SetShowsUserLocation bool
  | CallAnimateCamera Camera
  | CallSetCamera Camera
  | CallAnimateToRegion Region
  | Fix source LatLng
  | Unmount

text \<open>The state once the effects of the first render have run.\<close>

fun start :: "variant \<Rightarrow> Env \<Rightarrow> Props \<Rightarrow> State" where
  "start First env p = mount env p"
| "start Second env p = locationEffect env p (mount env p)"

fun step :: "variant \<Rightarrow> Env \<Rightarrow> event \<Rightarrow> Props \<times> State \<Rightarrow> error + ((Props \<times> State) \<times> effect list)" where
  "step v env (Load m) (p, st) =
     (let (st', out) = onLoad v p m st in
      Inr ((p, if v = Second \<and> \<not> mapLoaded st then rerunLocationEffect env p st' else st'), out))"
| "step v env ZoomChanged (p, st) =
     (let (st', out) = onZoomChanged v env p st in Inr ((p, st'), out))"
| "step v env Idle (p, st) =
     (let (st', out) = onIdle v env p st in Inr ((p, st'), out))"
| "step v env Drag (p, st) =
     (let (st', out) = onDrag v env p st in Inr ((p, st'), out))"
| "step v env Click (p, st) =
     (let (st', out) = onClick st in Inr ((p, st'), out))"
| "step v env DblClick (p, st) =
     (let (st', out) = onDblClick st in Inr ((p, st'), out))"
| "step v env (WidgetChanged m) (p, st) =
     Inr ((p, st\<lparr> instance := map_option (\<lambda>old. m) (instance st) \<rparr>), [])"
| "step v env (SetRegion r) (p, st) =
     (case useUpdateEffect v env r
             (st\<lparr> deltaRatio := computeDeltaRatio env (p\<lparr> region := r \<rparr>) \<rparr>) of
        Inl e \<Rightarrow> Inl e
      | Inr st' \<Rightarrow> Inr ((p\<lparr> region := r \<rparr>, st'), []))"
| "step v env (SetShowsUserLocation b) (p, st) =
     Inr ((p\<lparr> showsUserLocation := b \<rparr>,
           if v = Second \<and> b \<noteq> showsUserLocation p
           then rerunLocationEffect env (p\<lparr> showsUserLocation := b \<rparr>) st
           else st), [])"
| "step v env (CallAnimateCamera cam) (p, st) =
     (let (st', out) = animateCamera cam st in Inr ((p, st'), out))"
| "step v env (CallSetCamera cam) (p, st) =
     (let (st', out) = setCamera cam st in Inr ((p, st'), out))"
| "step v env (CallAnimateToRegion r) (p, st) =
     (let (st', out) = animateToRegion r st in Inr ((p, st'), out))"
| "step v env (Fix OneShot coords) (p, st) =
     Inr ((p, if 0 < pending st
              then updateUserLocation coords (st\<lparr> pending := pending st - 1 \<rparr>)
              else st), [])"
| "step v env (Fix (Watch w) coords) (p, st) =
     Inr ((p, if w \<in> set (watches st) then updateUserLocation coords st else st), [])"
| "step v env Unmount (p, st) = Inr ((p, unmount v st), [])"

text \<open>
  A run: the state after the events and what each event made the component do; a throw
  ends the run.
\<close>

fun run :: "variant \<Rightarrow> Env \<Rightarrow> event list \<Rightarrow> Props \<times> State \<Rightarrow> error + ((Props \<times> State) \<times> effect list list)" where
  "run v env [] w = Inr (w, [])"
| "run v env (e # es) w =
     (case step v env e w of
        Inl x \<Rightarrow> Inl x
      | Inr (w', out) \<Rightarrow>
          (case run v env es w' of
             Inl x \<Rightarrow> Inl x
           | Inr (w'', outs) \<Rightarrow> Inr (w'', out # outs)))"

section \<open>The zoom/delta converter\<close>

text \<open>
  Modelled from the spec: the converter functions of \<open>./utils\<close> (\<open>calcZoom\<close>, which the spec
  calls \<open>deltaToZoom\<close>, and \<open>zoomReverseDelta\<close>, which it calls \<open>zoomToDelta\<close>) are not among the
  source files. The spec's words: \<open>deltaToZoom\<close> is the base-2 logarithm of the reference world
  width in degrees over the longitude delta, rounded to the nearest integer and clamped to
  the supported zoom range [0, 21]; a delta of 0 or less is treated as the maximum zoom.
  \<open>zoomToDelta\<close> has \<open>longitudeDelta = referenceWorldWidth / 2^zoomLevel\<close> and
  \<open>latitudeDelta = longitudeDelta * deltaRatio\<close>. Numbers are the reals here.
\<close>

definition referenceWorldWidth :: real where
  "referenceWorldWidth = 360"

definition minZoom :: int where
  "minZoom = 0"

definition maxZoom :: int where
  "maxZoom = 21"

definition deltaToZoom :: "real \<Rightarrow> int" where
  "deltaToZoom lngDelta =
     (if lngDelta \<le> 0 then maxZoom
      else max minZoom (min maxZoom (round (log 2 (referenceWorldWidth / lngDelta)))))"

definition zoomToDelta :: "real \<Rightarrow> real \<Rightarrow> real Delta" where
  "zoomToDelta zoomLevel ratio =
     \<lparr> delta_latitudeDelta = referenceWorldWidth / 2 powr zoomLevel * ratio,
       delta_longitudeDelta = referenceWorldWidth / 2 powr zoomLevel \<rparr>"

text \<open>
  The same two functions on JavaScript numbers, as the component calls them: arithmetic on
  \<open>NaN\<close> or on \<open>undefined\<close> gives \<open>NaN\<close>.
\<close>

fun calcZoom_spec :: "number \<Rightarrow> number" where
  "calcZoom_spec (Num d) = Num (of_int (deltaToZoom d))"
| "calcZoom_spec NaN = NaN"

fun zoomReverseDelta_spec :: "number option \<Rightarrow> number \<Rightarrow> number Delta" where
  "zoomReverseDelta_spec (Some (Num z)) (Num r) =
     \<lparr> delta_latitudeDelta = Num (delta_latitudeDelta (zoomToDelta z r)),
       delta_longitudeDelta = Num (delta_longitudeDelta (zoomToDelta z r)) \<rparr>"
| "zoomReverseDelta_spec (Some (Num z)) NaN = \<lparr> delta_latitudeDelta = NaN, delta_longitudeDelta = NaN \<rparr>"
| "zoomReverseDelta_spec (Some NaN) r = \<lparr> delta_latitudeDelta = NaN, delta_longitudeDelta = NaN \<rparr>"
| "zoomReverseDelta_spec None r = \<lparr> delta_latitudeDelta = NaN, delta_longitudeDelta = NaN \<rparr>"

section \<open>Example values\<close>

text \<open>
  One environment, one set of props and one widget, for the worked examples below. The
  environment takes the converter as the spec describes it; its division is the division of
  finite numbers with a non-zero divisor and answers \<open>NaN\<close> otherwise (no example divides by
  zero); the default region and the table of map types are chosen freely.
\<close>

fun exampleDivide :: "number \<Rightarrow> number \<Rightarrow> number" where
  "exampleDivide (Num a) (Num b) = (if b = 0 then NaN else Num (a / b))"
| "exampleDivide (Num a) NaN = NaN"
| "exampleDivide NaN b = NaN"

definition exampleEnv :: Env where
  "exampleEnv =
     \<lparr> calcZoom = calcZoom_spec,
       zoomReverseDelta = zoomReverseDelta_spec,
       divide_number = exampleDivide,
       DEFAULT_REGION =
         \<lparr> latitude = Num 0, longitude = Num 0, latitudeDelta = Num 1, longitudeDelta = Num 1 \<rparr>,
       MAP_TYPE_MAPS = (\<lambda>t. if t = ''standard'' then Str ''roadmap'' else Undefined),
       geolocation = True \<rparr>"

definition exampleProps :: Props where
  "exampleProps =
     \<lparr> region = None,
       initialRegion = None,
       zoomEnabled = True,
       zoomControlEnabled = True,
       zoomTapEnabled = True,
       minZoomLevel = Undefined,
       maxZoomLevel = Undefined,
       mapType = ''standard'',
       customMapStyle = Undefined,
       showsMyLocationButton = False,
       showsUserLocation = True,
       provideOptions = None,
       onMapReady = True,
       onRegionChange = True,
       onRegionChangeComplete = True \<rparr>"

definition exampleMap :: Map where
  "exampleMap =
     \<lparr> getCenter = Some \<lparr> lat = Num 10, lng = Num 20 \<rparr>,
       getZoom = Some (Num 12),
       getTilt = Some (Num 0),
       getHeading = Some (Num 0) \<rparr>"

text \<open>
  What the examples of the location overlay look at after a run: the feature flag, the
  active watches, the marker ref and the marker objects.
\<close>

definition locationView ::
  "(Props \<times> State) \<times> effect list list \<Rightarrow> bool \<times> nat list \<times> nat option \<times> Marker list" where
  "locationView r =
     (showsUserLocation (fst (fst r)), watches (snd (fst r)),
      userLocationMarker (snd (fst r)), markers (snd (fst r)))"

definition exampleRegion :: Region where
  "exampleRegion =
     \<lparr> latitude = Num 37, longitude = Num (- 122),
       latitudeDelta = Num (1 / 10), longitudeDelta = Num (1 / 10) \<rparr>"

section \<open>Invariants of the machine\<close>

lemma removeMarker_frame [simp]:
  "instance (removeMarker st) = instance st"
  "hasIdleTriggerd (removeMarker st) = hasIdleTriggerd st"
  by (simp_all add: removeMarker_def split: option.splits)

lemma locationCleanup_frame [simp]:
  "instance (locationCleanup st) = instance st"
  "hasIdleTriggerd (locationCleanup st) = hasIdleTriggerd st"
  by (simp_all add: locationCleanup_def split: option.splits)

lemma locationEffect_frame [simp]:
  "instance (locationEffect env p st) = instance st"
  "hasIdleTriggerd (locationEffect env p st) = hasIdleTriggerd st"
  by (simp_all add: locationEffect_def)

lemma rerunLocationEffect_frame [simp]:
  "instance (rerunLocationEffect env p st) = instance st"
  "hasIdleTriggerd (rerunLocationEffect env p st) = hasIdleTriggerd st"
  by (simp_all add: rerunLocationEffect_def)

lemma updateUserLocation_frame [simp]:
  "instance (updateUserLocation c st) = instance st"
  "hasIdleTriggerd (updateUserLocation c st) = hasIdleTriggerd st"
  by (simp_all add: updateUserLocation_def Let_def split: option.splits)

lemma unmount_frame [simp]:
  "instance (unmount v st) = instance st"
  "hasIdleTriggerd (unmount v st) = hasIdleTriggerd st"
  by (cases v; simp)+

lemma useUpdateEffect_frame:
  assumes "useUpdateEffect v env r st = Inr st'"
  shows "instance st' = instance st" and "hasIdleTriggerd st' = hasIdleTriggerd st"
  using assms by (cases v; cases r; auto)+

lemma start_fresh [simp]:
  "instance (start v env p) = None"
  "hasIdleTriggerd (start v env p) = False"
  by (cases v; simp add: mount_def)+

lemma step_instance:
  assumes "step v env e (p, st) = Inr ((p', st'), out)"
  shows "(instance st' \<noteq> None) = (instance st \<noteq> None \<or> (\<exists>m. e = Load m))"
proof (cases e)
  case (Load m)
  with assms show ?thesis by (cases v) (auto split: if_splits)
next
  case (SetRegion r)
  with assms have "useUpdateEffect v env r (st\<lparr>deltaRatio := computeDeltaRatio env (p\<lparr>region := r\<rparr>)\<rparr>) = Inr st'"
    by (auto simp: Let_def split: sum.splits)
  from useUpdateEffect_frame(1)[OF this] show ?thesis using SetRegion by simp
next
  case (Fix s c)
  with assms show ?thesis by (cases s) (auto split: if_splits)
qed (use assms in \<open>auto simp: onZoomChanged_def onChangeComplete_def onIdle_def onDrag_def
      onClick_def onDblClick_def animateCamera_def setCamera_def animateToRegion_def Let_def
      split: if_splits option.splits\<close>)

lemma step_idle:
  assumes "step v env e (p, st) = Inr ((p', st'), out)"
  shows "hasIdleTriggerd st' = (hasIdleTriggerd st \<or> e = Idle)"
proof (cases e)
  case (Load m)
  with assms show ?thesis by (cases v) (auto split: if_splits)
next
  case (SetRegion r)
  with assms have "useUpdateEffect v env r (st\<lparr>deltaRatio := computeDeltaRatio env (p\<lparr>region := r\<rparr>)\<rparr>) = Inr st'"
    by (auto simp: Let_def split: sum.splits)
  from useUpdateEffect_frame(2)[OF this] show ?thesis using SetRegion by simp
next
  case (Fix s c)
  with assms show ?thesis by (cases s) (auto split: if_splits)
qed (use assms in \<open>auto simp: onZoomChanged_def onChangeComplete_def onIdle_def onDrag_def
      onClick_def onDblClick_def animateCamera_def setCamera_def animateToRegion_def Let_def
      split: if_splits option.splits\<close>)

lemma run_instance:
  "run v env evs (p, st) = Inr ((p', st'), outs) \<Longrightarrow>
   (instance st' \<noteq> None) = (instance st \<noteq> None \<or> (\<exists>m. Load m \<in> set evs))"
proof (induction evs arbitrary: p st outs)
  case Nil
  then show ?case by simp
next
  case (Cons e es)
  from Cons.prems obtain p1 st1 out outs' where
    s: "step v env e (p, st) = Inr ((p1, st1), out)" and
    r: "run v env es (p1, st1) = Inr ((p', st'), outs')"
    by (auto split: sum.splits)
  from Cons.IH[OF r] step_instance[OF s] show ?case by auto
qed

lemma run_idle:
  "run v env evs (p, st) = Inr ((p', st'), outs) \<Longrightarrow>
   hasIdleTriggerd st' = (hasIdleTriggerd st \<or> Idle \<in> set evs)"
proof (induction evs arbitrary: p st outs)
  case Nil
  then show ?case by simp
next
  case (Cons e es)
  from Cons.prems obtain p1 st1 out outs' where
    s: "step v env e (p, st) = Inr ((p1, st1), out)" and
    r: "run v env es (p1, st1) = Inr ((p', st'), outs')"
    by (auto split: sum.splits)
  from Cons.IH[OF r] step_idle[OF s] show ?case by auto
qed

lemma run_snoc:
  "run v env (evs @ [e]) w =
     (case run v env evs w of
        Inl x \<Rightarrow> Inl x
      | Inr (w', outs) \<Rightarrow>
          (case step v env e w' of
             Inl x \<Rightarrow> Inl x
           | Inr (w'', out) \<Rightarrow> Inr (w'', outs @ [out])))"
  by (induction evs arbitrary: w) (auto split: sum.splits)

lemma step_callbacks:
  assumes "step v env e (p, st) = Inr ((p', st'), out)"
  shows "onRegionChange p' = onRegionChange p"
    and "onRegionChangeComplete p' = onRegionChangeComplete p"
proof -
  have "onRegionChange p' = onRegionChange p \<and> onRegionChangeComplete p' = onRegionChangeComplete p"
  proof (cases e)
    case (SetRegion r)
    with assms show ?thesis by (auto simp: Let_def split: sum.splits)
  next
    case (SetShowsUserLocation b)
    with assms show ?thesis by (auto simp: Let_def)
  next
    case (Fix s c)
    with assms show ?thesis by (cases s) auto
  qed (use assms in \<open>auto split: prod.splits\<close>)
  then show "onRegionChange p' = onRegionChange p"
    and "onRegionChangeComplete p' = onRegionChangeComplete p"
    by simp_all
qed

lemma run_callbacks:
  "run v env evs (p, st) = Inr ((p', st'), outs) \<Longrightarrow>
   onRegionChange p' = onRegionChange p \<and> onRegionChangeComplete p' = onRegionChangeComplete p"
proof (induction evs arbitrary: p st outs)
  case Nil
  then show ?case by simp
next
  case (Cons e es)
  from Cons.prems obtain p1 st1 out outs' where
    s: "step v env e (p, st) = Inr ((p1, st1), out)" and
    r: "run v env es (p1, st1) = Inr ((p', st'), outs')"
    by (auto split: sum.splits)
  from Cons.IH[OF r] step_callbacks[OF s] show ?case by simp
qed

section \<open>Values of the converter\<close>

lemma round_log_3600: "round (log 2 3600) = 12"
proof -
  have sq: "((2::real) powr a)\<^sup>2 = 2 powr (a + a)" for a
    by (simp add: power2_eq_square flip: powr_add)
  have a: "(2::real) powr (23 / 2) \<le> 3600"
  proof -
    have "((2::real) powr (23 / 2))\<^sup>2 \<le> 3600\<^sup>2" unfolding sq by simp
    then show ?thesis by (rule power2_le_imp_le) simp
  qed
  have b: "3600 < (2::real) powr (25 / 2)"
  proof -
    have "(3600::real)\<^sup>2 < ((2::real) powr (25 / 2))\<^sup>2" unfolding sq by simp
    then show ?thesis by (rule power2_less_imp_less) simp
  qed
  have lo: "23 / 2 \<le> log 2 3600" using a by (subst le_log_iff) simp_all
  have hi: "log 2 3600 < 25 / 2" using b by (subst log_less_iff) simp_all
  show ?thesis by (rule round_unique) (use lo hi in simp_all)
qed

lemma calcZoom_spec_tenth: "calcZoom_spec (Num (1 / 10)) = Num 12"
  using round_log_3600
  by (simp add: deltaToZoom_def referenceWorldWidth_def minZoom_def maxZoom_def)

lemma calcZoom_spec_negative: "calcZoom_spec (Num (- 122)) = Num 21"
  by (simp add: deltaToZoom_def maxZoom_def)

section \<open>The marker ref names a marker\<close>

text \<open>
  The marker ref holds an index into the marker objects. In every run it names an object
  that exists, so the reads and writes through it are in range.
\<close>

lemma updateUserLocation_marker_ref:
  assumes "\<forall>i. userLocationMarker st = Some i \<longrightarrow> i < length (markers st)"
  shows "\<forall>i. userLocationMarker (updateUserLocation c st) = Some i \<longrightarrow>
             i < length (markers (updateUserLocation c st))"
  using assms by (auto simp: updateUserLocation_def Let_def split: option.splits)

lemma rerunLocationEffect_marker_ref:
  assumes "\<forall>i. userLocationMarker st = Some i \<longrightarrow> i < length (markers st)"
  shows "\<forall>i. userLocationMarker (rerunLocationEffect env p st) = Some i \<longrightarrow>
             i < length (markers (rerunLocationEffect env p st))"
  using assms
  by (auto simp: rerunLocationEffect_def locationEffect_def locationCleanup_def removeMarker_def
      split: option.splits)

lemma unmount_marker_ref:
  assumes "\<forall>i. userLocationMarker st = Some i \<longrightarrow> i < length (markers st)"
  shows "\<forall>i. userLocationMarker (unmount v st) = Some i \<longrightarrow> i < length (markers (unmount v st))"
  using assms
  by (cases v) (auto simp: locationCleanup_def removeMarker_def split: option.splits)

lemma step_marker_ref:
  assumes "step v env e (p, st) = Inr ((p', st'), out)"
    and "\<forall>i. userLocationMarker st = Some i \<longrightarrow> i < length (markers st)"
  shows "\<forall>i. userLocationMarker st' = Some i \<longrightarrow> i < length (markers st')"
proof (cases e)
  case (Load m)
  with assms rerunLocationEffect_marker_ref[of "fst (onLoad v p m st)" env p] show ?thesis
    by (cases v) (auto split: if_splits)
next
  case (SetRegion r)
  with assms show ?thesis by (cases v; cases r) (auto split: sum.splits)
next
  case (SetShowsUserLocation b)
  with assms rerunLocationEffect_marker_ref[of st env "p\<lparr>showsUserLocation := b\<rparr>"] show ?thesis
    by (auto split: if_splits)
next
  case (Fix s c)
  with assms updateUserLocation_marker_ref[of st c]
    updateUserLocation_marker_ref[of "st\<lparr>pending := pending st - 1\<rparr>" c]
  show ?thesis by (cases s) (auto split: if_splits)
next
  case Unmount
  with assms unmount_marker_ref[of st v] show ?thesis by auto
qed (use assms in \<open>auto simp: onZoomChanged_def onChangeComplete_def onIdle_def onDrag_def
      onClick_def onDblClick_def animateCamera_def setCamera_def animateToRegion_def Let_def
      split: if_splits option.splits\<close>)

lemma run_marker_ref:
  "run v env evs (p, st) = Inr ((p', st'), outs) \<Longrightarrow>
   \<forall>i. userLocationMarker st = Some i \<longrightarrow> i < length (markers st) \<Longrightarrow>
   \<forall>i. userLocationMarker st' = Some i \<longrightarrow> i < length (markers st')"
proof (induction evs arbitrary: p st outs)
  case Nil
  then show ?case by simp
next
  case (Cons e es)
  from Cons.prems(1) obtain p1 st1 out outs' where
    s: "step v env e (p, st) = Inr ((p1, st1), out)" and
    r: "run v env es (p1, st1) = Inr ((p', st'), outs')"
    by (auto split: sum.splits)
  from Cons.IH[OF r step_marker_ref[OF s Cons.prems(2)]] show ?case .
qed

lemma marker_ref_in_range:
  assumes "run v env evs (p, start v env p) = Inr ((p', st), outs)"
    and "userLocationMarker st = Some i"
  shows "i < length (markers st)"
proof -
  have "\<forall>i. userLocationMarker (start v env p) = Some i \<longrightarrow> i < length (markers (start v env p))"
    by (cases v) (simp_all add: mount_def locationEffect_def removeMarker_def)
  from run_marker_ref[OF assms(1) this] assms(2) show ?thesis by simp
qed

section \<open>The region effect\<close>

lemma useUpdateEffect_First_overwrites:
  "useUpdateEffect First env (Some r) st =
     Inr (st\<lparr> center := \<lparr> lat = latitude r, lng = longitude r \<rparr>,
              zoom := calcZoom env (longitudeDelta r) \<rparr>)"
  by simp

text \<open>
  C1. On a new region the effect is to overwrite \<open>center\<close> with the region's latitude and
  longitude and \<open>zoom\<close> with \<open>calcZoom\<close> of the region's longitude delta. The second variant
  overwrites \<open>zoom\<close> with \<open>calcZoom\<close> of the region's longitude instead: for the region
  (37, -122) with deltas 0.1 it stores \<open>calcZoom(-122)\<close>, which is 21 for the converter of the
  spec, where \<open>calcZoom\<close> of the longitude delta is 12.
\<close>

theorem useUpdateEffect_Second_zoom_of_longitude:
  "useUpdateEffect Second env (Some exampleRegion) st =
     Inr (st\<lparr> center := \<lparr> lat = Num 37, lng = Num (- 122) \<rparr>,
              zoom := calcZoom env (Num (- 122)) \<rparr>)
   \<and> calcZoom exampleEnv (Num (- 122)) = Num 21
   \<and> calcZoom exampleEnv (longitudeDelta exampleRegion) = Num 12"
  using calcZoom_spec_tenth calcZoom_spec_negative
  by (simp add: exampleEnv_def exampleRegion_def)

section \<open>Reports of the widget's events\<close>

text \<open>
  C2. Take any sequence of events the mounted component has gone through, and let an idle
  event follow. If it is the first idle event, the handler invokes no callback (and sets
  its flag). If an idle event came before, the handler invokes \<open>onRegionChange\<close> once and
  then \<open>onRegionChangeComplete\<close> once, each with the current region and
  \<open>{ isGesture: true }\<close>; \<open>invoke\<close> leaves out a callback the caller did not pass.
\<close>

theorem onIdle_first_swallowed_later_reported:
  assumes "run v env evs (p, start v env p) = Inr ((p', st), outs)"
  shows "run v env (evs @ [Idle]) (p, start v env p) =
           Inr ((p', st\<lparr> hasIdleTriggerd := True \<rparr>),
                outs @
                [if Idle \<in> set evs
                 then invoke (onRegionChange p)
                        (RegionChange (getCurrentRegion v env st) \<lparr> isGesture = True \<rparr>)
                    @ invoke (onRegionChangeComplete p)
                        (RegionChangeComplete (getCurrentRegion v env st) \<lparr> isGesture = True \<rparr>)
                 else []])"
proof -
  from run_idle[OF assms] have flag: "hasIdleTriggerd st = (Idle \<in> set evs)" by simp
  from run_callbacks[OF assms] have cb:
    "onRegionChange p' = onRegionChange p" "onRegionChangeComplete p' = onRegionChangeComplete p"
    by simp_all
  show ?thesis
    by (simp add: run_snoc assms onIdle_def onChangeComplete_def Let_def flag cb)
qed

theorem onIdle_first_swallowed_later_reported_witness:
  "map_sum id snd
     (run First exampleEnv ([Load exampleMap, Idle] @ [Idle])
        (exampleProps, start First exampleEnv exampleProps)) =
   Inr [[MapReady], [],
        [RegionChange
           \<lparr> latitude = Num 10, longitude = Num 20,
             latitudeDelta = Num (45 / 512), longitudeDelta = Num (45 / 512) \<rparr>
           \<lparr> isGesture = True \<rparr>,
         RegionChangeComplete
           \<lparr> latitude = Num 10, longitude = Num 20,
             latitudeDelta = Num (45 / 512), longitudeDelta = Num (45 / 512) \<rparr>
           \<lparr> isGesture = True \<rparr>]]"
proof -
  have r: "run First exampleEnv [Load exampleMap, Idle] (exampleProps, start First exampleEnv exampleProps) =
      Inr ((exampleProps, (mount exampleEnv exampleProps)\<lparr> instance := Some exampleMap, hasIdleTriggerd := True \<rparr>),
           [[MapReady], []])"
    by (simp add: exampleProps_def onIdle_def invoke_def mount_def)
  show ?thesis
    unfolding onIdle_first_swallowed_later_reported [OF r]
    by (simp add: exampleEnv_def exampleProps_def exampleMap_def mount_def invoke_def
        computeDeltaRatio_def zoomToDelta_def referenceWorldWidth_def loosely_null_def zero_def)
qed

text \<open>
  C3. Take any sequence of events the mounted component has gone through, and let a
  zoom-changed event follow. If no load event came before (the ref holds no widget), the
  handler invokes no callback. If a load event came before, it invokes \<open>onRegionChange\<close>
  and \<open>onRegionChangeComplete\<close> (those the caller passed) with the current region.
\<close>

theorem onZoomChanged_silent_before_load:
  assumes "run v env evs (p, start v env p) = Inr ((p', st), outs)"
  shows "run v env (evs @ [ZoomChanged]) (p, start v env p) =
           Inr ((p', st),
                outs @
                [if \<exists>m. Load m \<in> set evs
                 then invoke (onRegionChange p)
                        (RegionChange (getCurrentRegion v env st) \<lparr> isGesture = True \<rparr>)
                    @ invoke (onRegionChangeComplete p)
                        (RegionChangeComplete (getCurrentRegion v env st) \<lparr> isGesture = True \<rparr>)
                 else []])"
proof -
  from run_instance[OF assms] have inst: "(instance st = None) = (\<not> (\<exists>m. Load m \<in> set evs))"
    by auto
  from run_callbacks[OF assms] have cb:
    "onRegionChange p' = onRegionChange p" "onRegionChangeComplete p' = onRegionChangeComplete p"
    by simp_all
  show ?thesis
    by (simp add: run_snoc assms onZoomChanged_def onChangeComplete_def Let_def inst cb)
qed

theorem onZoomChanged_silent_before_load_witness:
  "map_sum id snd
     (run Second exampleEnv ([] @ [ZoomChanged]) (exampleProps, start Second exampleEnv exampleProps)) =
   Inr [[]]
   \<and> map_sum id snd
     (run Second exampleEnv ([Load exampleMap] @ [ZoomChanged])
        (exampleProps, start Second exampleEnv exampleProps)) =
   Inr [[MapReady],
        [RegionChange
           \<lparr> latitude = Num 10, longitude = Num 20,
             latitudeDelta = Num (45 / 512), longitudeDelta = Num (45 / 512) \<rparr>
           \<lparr> isGesture = True \<rparr>,
         RegionChangeComplete
           \<lparr> latitude = Num 10, longitude = Num 20,
             latitudeDelta = Num (45 / 512), longitudeDelta = Num (45 / 512) \<rparr>
           \<lparr> isGesture = True \<rparr>]]"
proof -
  have r0: "run Second exampleEnv [] (exampleProps, start Second exampleEnv exampleProps) =
      Inr ((exampleProps, start Second exampleEnv exampleProps), [])"
    by simp
  obtain st where r1: "run Second exampleEnv [Load exampleMap] (exampleProps, start Second exampleEnv exampleProps) =
      Inr ((exampleProps, st), [[MapReady]])"
    and st: "instance st = Some exampleMap" "deltaRatio st = Num 1"
    by (simp add: exampleProps_def exampleEnv_def invoke_def mount_def locationEffect_def
        rerunLocationEffect_def locationCleanup_def removeMarker_def computeDeltaRatio_def)
  show ?thesis
    unfolding onZoomChanged_silent_before_load [OF r0] onZoomChanged_silent_before_load [OF r1]
    by (simp add: st exampleEnv_def exampleProps_def exampleMap_def invoke_def
        zoomToDelta_def referenceWorldWidth_def strictly_null_def zero_def)
qed

text \<open>
  C4. A settle event that is reported outward is a zoom-changed event while the ref holds
  the widget, or an idle event after the first. Its handler reads the current region once
  and invokes \<open>onRegionChange\<close> first and \<open>onRegionChangeComplete\<close> second, both with that
  one region and with \<open>{ isGesture: true }\<close>, and nothing else.
\<close>

theorem settle_change_before_complete:
  assumes "(e = ZoomChanged \<and> instance st \<noteq> None) \<or> (e = Idle \<and> hasIdleTriggerd st)"
  shows "step v env e (p, st) =
           Inr ((p, st),
                invoke (onRegionChange p)
                  (RegionChange (getCurrentRegion v env st) \<lparr> isGesture = True \<rparr>)
                @ invoke (onRegionChangeComplete p)
                  (RegionChangeComplete (getCurrentRegion v env st) \<lparr> isGesture = True \<rparr>))"
  using assms
  by (auto simp: onZoomChanged_def onIdle_def onChangeComplete_def Let_def)

theorem settle_change_before_complete_witness:
  "map_sum id snd
     (step First exampleEnv ZoomChanged
        (exampleProps, (mount exampleEnv exampleProps)\<lparr> instance := Some exampleMap \<rparr>)) =
   Inr [RegionChange
          \<lparr> latitude = Num 10, longitude = Num 20,
            latitudeDelta = Num (45 / 512), longitudeDelta = Num (45 / 512) \<rparr>
          \<lparr> isGesture = True \<rparr>,
        RegionChangeComplete
          \<lparr> latitude = Num 10, longitude = Num 20,
            latitudeDelta = Num (45 / 512), longitudeDelta = Num (45 / 512) \<rparr>
          \<lparr> isGesture = True \<rparr>]"
proof -
  have h: "(ZoomChanged = ZoomChanged \<and>
            instance ((mount exampleEnv exampleProps)\<lparr> instance := Some exampleMap \<rparr>) \<noteq> None)
         \<or> (ZoomChanged = Idle \<and>
            hasIdleTriggerd ((mount exampleEnv exampleProps)\<lparr> instance := Some exampleMap \<rparr>))"
    by simp
  show ?thesis
    unfolding settle_change_before_complete [OF h]
    by (simp add: exampleEnv_def exampleProps_def exampleMap_def mount_def invoke_def
        computeDeltaRatio_def zoomToDelta_def referenceWorldWidth_def loosely_null_def zero_def)
qed

section \<open>Reads before the widget has loaded\<close>

lemma getCamera_before_load:
  assumes "instance st = None"
  shows "getCamera st =
           \<lparr> cam_center = \<lparr> latitude = Num 0, longitude = Num 0 \<rparr>,
             pitch = Some (Num 0), altitude = Some (Num 0),
             heading = Some (Num 0), cam_zoom = Some (Num 0) \<rparr>"
  using assms by (simp add: getCamera_def zero_def)

lemma getCurrentRegion_First_before_load:
  assumes "instance st = None"
  shows "getCurrentRegion First env st =
           \<lparr> latitude = Num 0, longitude = Num 0,
             latitudeDelta = Num 0, longitudeDelta = Num 0 \<rparr>"
  using assms by (simp add: loosely_null_def zero_def)

lemma getCurrentRegion_Second_before_load:
  assumes "instance st = None"
  shows "getCurrentRegion Second env st =
           \<lparr> latitude = Num 0, longitude = Num 0,
             latitudeDelta = delta_latitudeDelta (zoomReverseDelta env None (deltaRatio st)),
             longitudeDelta = delta_longitudeDelta (zoomReverseDelta env None (deltaRatio st)) \<rparr>"
  using assms by (simp add: strictly_null_def zero_def)

text \<open>
  C5. Before the widget has loaded, \<open>getCamera\<close> answers the zero camera and the
  current-region read answers the region with four zero fields. The read of the second
  variant does not: its test \<open>zoom === null\<close> fails for the \<open>undefined\<close> zoom, so it calls
  \<open>zoomReverseDelta(undefined, ratio)\<close> and returns that result's deltas, which are \<open>NaN\<close>
  for the converter of the spec.
\<close>

theorem getCurrentRegion_Second_unloaded_NaN:
  "getCurrentRegion Second exampleEnv (start Second exampleEnv exampleProps) =
     \<lparr> latitude = Num 0, longitude = Num 0, latitudeDelta = NaN, longitudeDelta = NaN \<rparr>
   \<and> getCurrentRegion First exampleEnv (start First exampleEnv exampleProps) =
     \<lparr> latitude = Num 0, longitude = Num 0, latitudeDelta = Num 0, longitudeDelta = Num 0 \<rparr>
   \<and> getCamera (start Second exampleEnv exampleProps) =
     \<lparr> cam_center = \<lparr> latitude = Num 0, longitude = Num 0 \<rparr>,
       pitch = Some (Num 0), altitude = Some (Num 0),
       heading = Some (Num 0), cam_zoom = Some (Num 0) \<rparr>"
proof -
  have unloaded: "instance (start v exampleEnv exampleProps) = None" for v
    by simp
  have nan: "zoomReverseDelta exampleEnv None r =
      \<lparr> delta_latitudeDelta = NaN, delta_longitudeDelta = NaN \<rparr>" for r
    by (simp add: exampleEnv_def)
  show ?thesis
    unfolding getCurrentRegion_Second_before_load [OF unloaded]
      getCurrentRegion_First_before_load [OF unloaded] getCamera_before_load [OF unloaded] nan
    by simp
qed

section \<open>Round trip of the converter\<close>

text \<open>
  C6. For every integer zoom level \<open>z\<close> of the supported range [0, 21] and every ratio
  \<open>r > 0\<close>, converting \<open>z\<close> to deltas and the longitude delta back gives \<open>z\<close> again.
\<close>

theorem deltaToZoom_zoomToDelta:
  assumes "minZoom \<le> z" and "z \<le> maxZoom" and "0 < r"
  shows "deltaToZoom (delta_longitudeDelta (zoomToDelta (of_int z) r)) = z"
proof -
  have pos: "0 < referenceWorldWidth / 2 powr (of_int z)"
    by (simp add: referenceWorldWidth_def)
  have "referenceWorldWidth / (referenceWorldWidth / 2 powr (of_int z)) = 2 powr (of_int z)"
    by (simp add: referenceWorldWidth_def)
  then have "round (log 2 (referenceWorldWidth / (referenceWorldWidth / 2 powr (of_int z)))) = z"
    by simp
  with pos assms show ?thesis
    by (simp add: deltaToZoom_def zoomToDelta_def)
qed

theorem deltaToZoom_zoomToDelta_witness:
  "minZoom \<le> 12 \<and> 12 \<le> maxZoom \<and> (0::real) < 1 \<and>
   deltaToZoom (delta_longitudeDelta (zoomToDelta (of_int 12) 1)) = 12"
  using deltaToZoom_zoomToDelta [of 12 1] by (simp add: minZoom_def maxZoom_def)

section \<open>The user-location marker\<close>

lemma first_fix_creates_marker:
  assumes "userLocationMarker st = None" and "instance st \<noteq> None"
  shows "updateUserLocation c st =
           st\<lparr> markers := markers st @ [\<lparr> position = \<lparr> lat = latitude c, lng = longitude c \<rparr>, onMap = True \<rparr>],
               userLocationMarker := Some (length (markers st)) \<rparr>"
  using assms by (simp add: updateUserLocation_def)

lemma later_fix_repositions_marker:
  assumes "userLocationMarker st = Some i"
  shows "updateUserLocation c st =
           st\<lparr> markers := (markers st)[i := (markers st ! i)\<lparr> position := \<lparr> lat = latitude c, lng = longitude c \<rparr> \<rparr>] \<rparr>"
    and "length (markers (updateUserLocation c st)) = length (markers st)"
    and "userLocationMarker (updateUserLocation c st) = Some i"
  using assms by (simp_all add: updateUserLocation_def)

lemma disable_removes_marker_and_watch:
  assumes "\<not> showsUserLocation p" and "userLocationMarker st = Some i" and "i < length (markers st)"
    and "cleanup st = Some w"
  shows "userLocationMarker (rerunLocationEffect env p st) = None"
    and "\<not> onMap (markers (rerunLocationEffect env p st) ! i)"
    and "w \<notin> set (watches (rerunLocationEffect env p st))"
  using assms
  by (simp_all add: rerunLocationEffect_def locationEffect_def locationCleanup_def removeMarker_def)

text \<open>
  C7. With the feature enabled, the first fix creates the one marker, later fixes move it,
  and disabling the feature (or teardown) detaches the marker and clears the watch, after
  which no late fix touches a marker. The one-shot request cannot be cleared, and its
  callback does not look at the feature flag. In the first run below (load; a fix of
  watch 0; the feature switched off; the late fix of the one-shot request) the late fix
  finds the marker ref empty and creates a second marker, attached to the widget, while
  the feature is off. In the second run (load; off; on; off; two late one-shot fixes) the
  first late fix creates a marker and the second repositions it, both after the feature
  was switched off.
\<close>

theorem late_fix_after_disable_creates_marker:
  "map_sum id locationView
     (run Second exampleEnv
        [Load exampleMap,
         Fix (Watch 0) \<lparr> latitude = Num 1, longitude = Num 2 \<rparr>,
         SetShowsUserLocation False,
         Fix OneShot \<lparr> latitude = Num 3, longitude = Num 4 \<rparr>]
        (exampleProps, start Second exampleEnv exampleProps)) =
   Inr (False, [], Some 1,
        [\<lparr> position = \<lparr> lat = Num 1, lng = Num 2 \<rparr>, onMap = False \<rparr>,
         \<lparr> position = \<lparr> lat = Num 3, lng = Num 4 \<rparr>, onMap = True \<rparr>])
   \<and> map_sum id locationView
     (run Second exampleEnv
        [Load exampleMap,
         SetShowsUserLocation False,
         SetShowsUserLocation True,
         SetShowsUserLocation False,
         Fix OneShot \<lparr> latitude = Num 1, longitude = Num 2 \<rparr>,
         Fix OneShot \<lparr> latitude = Num 3, longitude = Num 4 \<rparr>]
        (exampleProps, start Second exampleEnv exampleProps)) =
   Inr (False, [], Some 0,
        [\<lparr> position = \<lparr> lat = Num 3, lng = Num 4 \<rparr>, onMap = True \<rparr>])"
  by (simp add: exampleEnv_def exampleProps_def mount_def locationEffect_def
      rerunLocationEffect_def locationCleanup_def removeMarker_def updateUserLocation_def
      invoke_def locationView_def)

section \<open>The camera operations of the handle\<close>

text \<open>
  C8. \<open>animateCamera\<close> and \<open>setCamera\<close> are the same operation: for every camera and every
  state, whatever the widget reports, they leave the component as it is and make the same
  calls, namely one call of \<open>moveCamera\<close> with the centre translated to \<open>{ lat, lng }\<close> and
  the other fields of the camera as they came (and, alike, no call while the ref holds no
  widget).
\<close>

theorem animateCamera_eq_setCamera:
  "animateCamera cam st = setCamera cam st
   \<and> setCamera cam st =
       (st, case instance st of
              None \<Rightarrow> []
            | Some m \<Rightarrow>
                [MoveCamera
                   \<lparr> cam_center =
                       \<lparr> lat = latitude (cam_center cam), lng = longitude (cam_center cam) \<rparr>,
                     pitch = pitch cam,
                     altitude = altitude cam,
                     heading = heading cam,
                     cam_zoom = cam_zoom cam \<rparr>])"
  by (simp add: animateCamera_def setCamera_def split: option.splits)

theorem animateCamera_eq_setCamera_witness:
  "animateCamera
     \<lparr> cam_center = \<lparr> latitude = Num 10, longitude = Num 20 \<rparr>,
       pitch = Some (Num 45), altitude = None, heading = Some (Num 90), cam_zoom = Some (Num 12) \<rparr>
     ((mount exampleEnv exampleProps)\<lparr> instance := Some exampleMap \<rparr>) =
   ((mount exampleEnv exampleProps)\<lparr> instance := Some exampleMap \<rparr>,
    [MoveCamera
       \<lparr> cam_center = \<lparr> lat = Num 10, lng = Num 20 \<rparr>,
         pitch = Some (Num 45), altitude = None, heading = Some (Num 90), cam_zoom = Some (Num 12) \<rparr>])"
  using animateCamera_eq_setCamera
    [of "\<lparr> cam_center = \<lparr> latitude = Num 10, longitude = Num 20 \<rparr>,
           pitch = Some (Num 45), altitude = None, heading = Some (Num 90), cam_zoom = Some (Num 12) \<rparr>"
        "(mount exampleEnv exampleProps)\<lparr> instance := Some exampleMap \<rparr>"]
  by simp

section \<open>Panning to a region\<close>

text \<open>
  C9, as stated, fails while the ref holds no widget: the call is dropped and no pan is
  issued.
\<close>

theorem animateToRegion_before_load_no_pan:
  "\<not> (\<forall>r st. snd (animateToRegion r st) = [PanTo \<lparr> lat = latitude r, lng = longitude r \<rparr>])"
proof
  assume "\<forall>r st. snd (animateToRegion r st) = [PanTo \<lparr> lat = latitude r, lng = longitude r \<rparr>]"
  then have "snd (animateToRegion exampleRegion (mount exampleEnv exampleProps)) =
      [PanTo \<lparr> lat = latitude exampleRegion, lng = longitude exampleRegion \<rparr>]"
    by blast
  then show False by (simp add: animateToRegion_def mount_def)
qed

text \<open>
  C9, amended. For every region, \<open>animateToRegion\<close> leaves the component as it is; once
  the widget has been recorded it makes exactly one call, \<open>panTo\<close> with the region's
  latitude and longitude, and before that it makes no call. The deltas of the region play
  no part.
\<close>

theorem animateToRegion_pan_only:
  "animateToRegion r st =
     (st, if instance st = None then []
          else [PanTo \<lparr> lat = latitude r, lng = longitude r \<rparr>])
   \<and> animateToRegion (r\<lparr> latitudeDelta := a, longitudeDelta := b \<rparr>) st = animateToRegion r st"
  by (simp add: animateToRegion_def split: option.splits)

theorem animateToRegion_pan_only_witness:
  "animateToRegion
     \<lparr> latitude = Num 10, longitude = Num 20, latitudeDelta = Num 1, longitudeDelta = Num 2 \<rparr>
     ((mount exampleEnv exampleProps)\<lparr> instance := Some exampleMap \<rparr>) =
   ((mount exampleEnv exampleProps)\<lparr> instance := Some exampleMap \<rparr>,
    [PanTo \<lparr> lat = Num 10, lng = Num 20 \<rparr>])"
  using animateToRegion_pan_only
    [of "\<lparr> latitude = Num 10, longitude = Num 20, latitudeDelta = Num 1, longitudeDelta = Num 2 \<rparr>"
        "(mount exampleEnv exampleProps)\<lparr> instance := Some exampleMap \<rparr>"]
  by simp

section \<open>The options memo and the shared defaults\<close>

lemma options_First_keeps_DEFAULT_OPTIONS:
  "fst (options First env p D) = D"
  by simp

text \<open>
  C10. Computing the options leaves \<open>DEFAULT_OPTIONS\<close> as it was. The second variant
  assigns into \<open>DEFAULT_OPTIONS\<close> itself: whatever the constant held, after a computation
  with zoom disabled it holds \<open>gestureHandling: 'none'\<close>, and after a computation with zoom
  enabled \<open>gestureHandling: 'auto'\<close>, so no content of the constant survives both.
\<close>

theorem options_Second_writes_DEFAULT_OPTIONS:
  "fst (options Second env (exampleProps\<lparr> zoomEnabled := False \<rparr>) D) ''gestureHandling'' =
     Some (Str ''none'')
   \<and> fst (options Second env (exampleProps\<lparr> zoomEnabled := True \<rparr>) D) ''gestureHandling'' =
     Some (Str ''auto'')
   \<and> \<not> (fst (options Second env (exampleProps\<lparr> zoomEnabled := False \<rparr>) D) = D
        \<and> fst (options Second env (exampleProps\<lparr> zoomEnabled := True \<rparr>) D) = D)"
proof -
  have a: "fst (options Second env (exampleProps\<lparr> zoomEnabled := False \<rparr>) D) ''gestureHandling'' =
      Some (Str ''none'')"
    by (simp add: Object_assign_def computedOptions_def spread_def exampleProps_def Let_def)
  have b: "fst (options Second env (exampleProps\<lparr> zoomEnabled := True \<rparr>) D) ''gestureHandling'' =
      Some (Str ''auto'')"
    by (simp add: Object_assign_def computedOptions_def spread_def exampleProps_def Let_def)
  have "Some (Str ''none'') \<noteq> Some (Str ''auto'')" by simp
  with a b show ?thesis by metis
qed

end
